theory Spec2Isabelle
  imports Complex_Main "HOL-Library.Word"
begin

section \<open>check\_mi.py: media integrity checker\<close>

text \<open>
  A shallow embedding of \<^verbatim>\<open>src/check_mi.py\<close>. The program runs under Python 3
  (it imports \<^verbatim>\<open>queue\<close> and annotates parameters), so the branch of
  \<^verbatim>\<open>check_file\<close> for Python 2 is dead and left out; paths are POSIX paths.
  Python values that travel through tuples of mixed type are \<open>pyval\<close>; exceptions are
  values of \<open>exn\<close>; calls into the operating system and into Pillow, Wand,
  ImageMagick and ffmpeg are answered by an environment record and logged as effects.
  The worker processes are not modelled as processes: what one of them does with a task
  is \<open>worker_check\<close>, and what they deliver to the collector is part of the
  environment.
\<close>

subsection \<open>Python values and exceptions\<close>

datatype pyval = PNone | PStr string | PInt int

text \<open>
  \<open>OtherError\<close> stands for any exception class raised by the operating system or by a
  library (OSError, PIL.UnidentifiedImageError, ffmpeg.Error, ...), carrying what
  \<^verbatim>\<open>str(e)\<close> gives. \<open>Warning\<close> is a Python warning turned into an exception
  by \<^verbatim>\<open>warnings.filterwarnings("error")\<close>. Every constructor is a subclass of
  Python's \<^verbatim>\<open>Exception\<close>, so \<^verbatim>\<open>except Exception\<close> catches all of them;
  \<^verbatim>\<open>sys.exit\<close> is a way for main to end, see \<open>ending\<close> below.
\<close>

datatype exn =
    SyntaxError string
  | Exception "pyval list"
  | AttributeError string
  | TypeError string
  | ZeroDivisionError string
  | CorruptImageError string
  | Warning string
  | OtherError string
  | Empty

subsection \<open>Decimal text of integers, \<^verbatim>\<open>str\<close> and \<^verbatim>\<open>repr\<close>\<close>

definition digit_char :: "nat \<Rightarrow> char" where
  "digit_char d = char_of (48 + d)"

function str_nat :: "nat \<Rightarrow> string" where
  "str_nat n = (if n < 10 then [digit_char n] else str_nat (n div 10) @ [digit_char (n mod 10)])"
  by pat_completeness auto
termination
  by (relation "measure id") auto

declare str_nat.simps [simp del]

definition str_int :: "int \<Rightarrow> string" where
  "str_int i = (if i < 0 then CHR ''-'' # str_nat (nat (- i)) else str_nat (nat i))"

text \<open>
  \<^verbatim>\<open>repr\<close> of a string is written with single quotes; escapes are not modelled
  (the strings that reach it in this program are two literals without quotes or
  backslashes).
\<close>

definition repr :: "pyval \<Rightarrow> string" where
  "repr v = (case v of
       PNone \<Rightarrow> ''None''
     | PStr s \<Rightarrow> [CHR 0x27] @ s @ [CHR 0x27]
     | PInt i \<Rightarrow> str_int i)"

definition str_val :: "pyval \<Rightarrow> string" where
  "str_val v = (case v of PStr s \<Rightarrow> s | _ \<Rightarrow> repr v)"

fun join_comma :: "string list \<Rightarrow> string" where
  "join_comma [] = []"
| "join_comma [s] = s"
| "join_comma (s # t # rest) = s @ '', '' @ join_comma (t # rest)"

text \<open>
  \<^verbatim>\<open>str(e)\<close>: no argument gives the empty string, one argument its \<^verbatim>\<open>str\<close>,
  several arguments the \<^verbatim>\<open>repr\<close> of the argument tuple.
\<close>

definition str_exn :: "exn \<Rightarrow> string" where
  "str_exn e = (case e of
       SyntaxError m \<Rightarrow> m
     | Exception args \<Rightarrow>
         (case args of
            [] \<Rightarrow> []
          | [a] \<Rightarrow> str_val a
          | _ \<Rightarrow> ''('' @ join_comma (map repr args) @ '')'')
     | AttributeError m \<Rightarrow> m
     | TypeError m \<Rightarrow> m
     | ZeroDivisionError m \<Rightarrow> m
     | CorruptImageError m \<Rightarrow> m
     | Warning m \<Rightarrow> m
     | OtherError m \<Rightarrow> m
     | Empty \<Rightarrow> [])"

definition class_name :: "exn \<Rightarrow> string" where
  "class_name e = (case e of
       SyntaxError _ \<Rightarrow> ''SyntaxError''
     | Exception _ \<Rightarrow> ''Exception''
     | AttributeError _ \<Rightarrow> ''AttributeError''
     | TypeError _ \<Rightarrow> ''TypeError''
     | ZeroDivisionError _ \<Rightarrow> ''ZeroDivisionError''
     | CorruptImageError _ \<Rightarrow> ''CorruptImageError''
     | Warning _ \<Rightarrow> ''Warning''
     | OtherError _ \<Rightarrow> ''OSError''
     | Empty \<Rightarrow> ''Empty'')"

text \<open>
  \<^verbatim>\<open>e.message\<close>: Python 3 exceptions have no attribute \<^verbatim>\<open>message\<close>
  (it was removed from BaseException in Python 3.0, and none of the classes above
  defines one), so the attribute access raises.
\<close>

definition getattr_message :: "exn \<Rightarrow> exn + pyval" where
  "getattr_message e =
     Inl (AttributeError ([CHR 0x27] @ class_name e @ [CHR 0x27]
            @ '' object has no attribute '' @ [CHR 0x27] @ ''message'' @ [CHR 0x27]))"

subsection \<open>Strings and paths\<close>

text \<open>
  \<^verbatim>\<open>str.lower()\<close> on ASCII text. A \<open>char\<close> is a byte, so letters outside ASCII
  (which Python would also lower) are left as they are.
\<close>

definition lower_char :: "char \<Rightarrow> char" where
  "lower_char c =
     (let n = (of_char c :: nat) in if 65 \<le> n \<and> n \<le> 90 then char_of (n + 32) else c)"

definition lower :: "string \<Rightarrow> string" where
  "lower s = map lower_char s"

text \<open>\<^verbatim>\<open>str.rfind(ch)\<close>: the index of the last occurrence, or -1.\<close>

fun rfind_from :: "string \<Rightarrow> char \<Rightarrow> nat \<Rightarrow> int \<Rightarrow> int" where
  "rfind_from [] c i found = found"
| "rfind_from (x # xs) c i found = rfind_from xs c (Suc i) (if x = c then int i else found)"

definition rfind :: "string \<Rightarrow> char \<Rightarrow> int" where
  "rfind p c = rfind_from p c 0 (- 1)"

text \<open>
  \<^verbatim>\<open>os.path.splitext\<close> of the Python standard library (posixpath, separator
  \<^verbatim>\<open>/\<close>): the extension starts at the last dot of the last path component,
  unless only dots precede it in that component.
  \<^verbatim>\<open>
    sepIndex = p.rfind(sep)
    dotIndex = p.rfind(extsep)
    if dotIndex > sepIndex:
        filenameIndex = sepIndex + 1
        while filenameIndex < dotIndex:
            if p[filenameIndex:filenameIndex+1] != extsep:
                return p[:dotIndex], p[dotIndex:]
            filenameIndex += 1
    return p, p[:0]
  \<close>
\<close>

definition splitext :: "string \<Rightarrow> string \<times> string" where
  "splitext p =
     (let sepIndex = rfind p CHR ''/'';
          dotIndex = rfind p CHR ''.''
      in if dotIndex > sepIndex
            \<and> dropWhile (\<lambda>ch. ch = CHR ''.'') (drop (nat (sepIndex + 1)) (take (nat dotIndex) p)) \<noteq> []
         then (take (nat dotIndex) p, drop (nat dotIndex) p)
         else (p, []))"

text \<open>\<^verbatim>\<open>os.path.join(a, b)\<close> for two components (posixpath).\<close>

definition path_join :: "string \<Rightarrow> string \<Rightarrow> string" where
  "path_join a b =
     (if b \<noteq> [] \<and> hd b = CHR ''/'' then b
      else if a = [] \<or> last a = CHR ''/'' then a @ b
      else a @ ''/'' @ b)"

subsection \<open>Configuration and module globals\<close>

record config =
  checkpath :: string
  csv_filename :: "string option"
  is_recurse :: bool
  zero_detect :: int
  is_disable_image :: bool
  is_enable_media :: bool
  is_disable_extra :: bool
  error_detect :: string
  threads :: int
  timeout :: int

text \<open>\<^verbatim>\<open>parse_out.enable_csv = parse_out.csv_filename is not None\<close>\<close>

definition enable_csv :: "config \<Rightarrow> bool" where
  "enable_csv c = (csv_filename c \<noteq> None)"

definition UPDATE_SEC_INTERVAL :: int where
  "UPDATE_SEC_INTERVAL = 5"

definition UPDATE_MB_INTERVAL :: int where
  "UPDATE_MB_INTERVAL = 500"

definition PIL_EXTENSIONS_init :: "string list" where
  "PIL_EXTENSIONS_init = [''jpg'', ''jpeg'', ''jpe'', ''png'', ''bmp'', ''gif'', ''pcd'', ''tif'',
     ''tiff'', ''j2k'', ''j2p'', ''j2x'', ''webp'']"

definition PIL_EXTRA_EXTENSIONS :: "string list" where
  "PIL_EXTRA_EXTENSIONS = [''eps'', ''ico'', ''im'', ''pcx'', ''ppm'', ''sgi'', ''spider'', ''xbm'',
     ''tga'']"

definition MAGICK_EXTENSIONS :: "string list" where
  "MAGICK_EXTENSIONS = [''psd'', ''xcf'']"

definition VIDEO_EXTENSIONS :: "string list" where
  "VIDEO_EXTENSIONS = [''avi'', ''mp4'', ''mov'', ''mpeg'', ''mpg'', ''m2p'', ''mkv'', ''3gp'',
     ''ogg'', ''flv'', ''f4v'', ''f4p'', ''f4a'', ''f4b'']"

definition AUDIO_EXTENSIONS :: "string list" where
  "AUDIO_EXTENSIONS = [''mp3'', ''mp2'']"

text \<open>
  The module-level variables that the program rebinds or mutates:
  \<^verbatim>\<open>MEDIA_EXTENSIONS\<close>, \<^verbatim>\<open>PIL_EXTENSIONS\<close> (extended in place by setup) and
  \<^verbatim>\<open>CONFIG\<close> (None until main assigns it).
\<close>

record globals =
  MEDIA_EXTENSIONS :: "string list"
  PIL_EXTENSIONS :: "string list"
  CONFIG :: "config option"

definition module_globals :: globals where
  "module_globals = \<lparr> MEDIA_EXTENSIONS = [], PIL_EXTENSIONS = PIL_EXTENSIONS_init, CONFIG = None \<rparr>"

text \<open>\<^verbatim>\<open>setup(configuration)\<close>\<close>

definition setup_config :: "config \<Rightarrow> globals \<Rightarrow> globals" where
  "setup_config configuration g =
     (let enable_extra = \<not> is_disable_extra configuration;
          enable_images = \<not> is_disable_image configuration;
          enable_media = is_enable_media configuration;
          g1 = (if enable_extra
                then g\<lparr>PIL_EXTENSIONS := PIL_EXTENSIONS g @ PIL_EXTRA_EXTENSIONS\<rparr>
                else g);
          g2 = (if enable_images
                then (let g' = g1\<lparr>MEDIA_EXTENSIONS := MEDIA_EXTENSIONS g1 @ PIL_EXTENSIONS g1\<rparr>
                      in if enable_extra
                         then g'\<lparr>MEDIA_EXTENSIONS := MEDIA_EXTENSIONS g' @ MAGICK_EXTENSIONS\<rparr>
                         else g')
                else g1)
      in if enable_media
         then g2\<lparr>MEDIA_EXTENSIONS := MEDIA_EXTENSIONS g2 @ (VIDEO_EXTENSIONS @ AUDIO_EXTENSIONS)\<rparr>
         else g2)"

subsection \<open>Extension filter\<close>

definition get_extension :: "string \<Rightarrow> string" where
  "get_extension filename = (let file_lowercase = lower filename
                             in drop 1 (snd (splitext file_lowercase)))"

definition is_target_file :: "globals \<Rightarrow> string \<Rightarrow> bool" where
  "is_target_file g filename = (let file_ext = get_extension filename
                                in file_ext \<in> set (MEDIA_EXTENSIONS g))"

subsection \<open>Environment, effects and sequencing\<close>

type_synonym byte = "8 word"

type_synonym detail = "pyval \<times> pyval \<times> pyval"

type_synonym outcome = "bool \<times> detail"

text \<open>
  What the program does to the outside world, in order. \<open>PrintProgress\<close> and
  \<open>PrintSpeed\<close> are the two print calls of \<^verbatim>\<open>print_log\<close>; their numbers are the
  values handed to \<^verbatim>\<open>"{0:0.1f}".format\<close>, whose digits are not modelled.
\<close>

datatype effect =
    Stat string
  | ReadFile string
  | PilCheck string
  | WandOpen string
  | MagickIdentify string
  | FfmpegRun string "(string \<times> pyval) list"
  | Print "pyval list"
  | PrintProgress int int real
  | PrintSpeed real real
  | Remove string
  | StartWorker
  | WriteCsv string "pyval list list"

text \<open>
  The answers of the outside world. \<open>os_stat\<close> gives \<^verbatim>\<open>os.stat(f).st_size\<close> or the
  exception raised; \<open>file_bytes\<close> what \<^verbatim>\<open>open(f, "rb").read()\<close> gives;
  \<open>pil_result\<close>, \<open>wand_result\<close> and \<open>ffmpeg_result\<close> the exception a library raises,
  if any; \<open>identify_result\<close> the exit code of \<^verbatim>\<open>magick identify\<close>.
  \<open>arrivals\<close> are the outcomes that the worker processes deliver on the output
  queue before a \<^verbatim>\<open>get\<close> times out, in order of arrival, each with the value
  \<^verbatim>\<open>time.time()\<close> has while the collector handles it; once they are used up the
  next \<^verbatim>\<open>get\<close> raises \<^verbatim>\<open>Empty\<close>. Time is a real number.
\<close>

record env =
  os_stat :: "string \<Rightarrow> exn + nat"
  file_bytes :: "string \<Rightarrow> exn + byte list"
  pil_result :: "string \<Rightarrow> exn option"
  wand_result :: "string \<Rightarrow> exn option"
  identify_result :: "string \<Rightarrow> exn + int"
  ffmpeg_result :: "string \<Rightarrow> (string \<times> pyval) list \<Rightarrow> exn option"
  isfile :: "string \<Rightarrow> bool"
  path_exists :: "string \<Rightarrow> bool"
  os_walk :: "string \<Rightarrow> (string \<times> string list \<times> string list) list"
  os_remove :: "string \<Rightarrow> exn option"
  open_write :: "string \<Rightarrow> exn option"
  pil_version :: string
  start_clock :: real
  arrivals :: "(outcome \<times> real) list"
  final_clock :: real

text \<open>A computation: the effects performed, and the exception raised or the value returned.\<close>

type_synonym 'a io = "effect list \<times> (exn + 'a)"

definition io_ret :: "'a \<Rightarrow> 'a io" where
  "io_ret x = ([], Inr x)"

definition io_raise :: "exn \<Rightarrow> 'a io" where
  "io_raise e = ([], Inl e)"

definition io_bind :: "'a io \<Rightarrow> ('a \<Rightarrow> 'b io) \<Rightarrow> 'b io" where
  "io_bind m f = (case m of
       (t, Inl e) \<Rightarrow> (t, Inl e)
     | (t, Inr x) \<Rightarrow> (case f x of (t', r) \<Rightarrow> (t @ t', r)))"

definition io_seq :: "'a io \<Rightarrow> 'b io \<Rightarrow> 'b io" where
  "io_seq m k = io_bind m (\<lambda>_. k)"

definition io_when :: "bool \<Rightarrow> unit io \<Rightarrow> unit io" where
  "io_when b m = (if b then m else io_ret ())"

definition io_optional :: "exn option \<Rightarrow> exn + unit" where
  "io_optional r = (case r of Some e \<Rightarrow> Inl e | None \<Rightarrow> Inr ())"

subsection \<open>The probes\<close>

text \<open>\<^verbatim>\<open>pil_check\<close>: open, verify, close, open again, transpose, close; one library answer.\<close>

definition pil_check :: "env \<Rightarrow> string \<Rightarrow> unit io" where
  "pil_check env filename = ([PilCheck filename], io_optional (pil_result env filename))"

text \<open>
  \<^verbatim>\<open>magick_check(filename)\<close> with the default \<^verbatim>\<open>flip=True\<close>, as every
  caller has it: a Warning becomes CorruptImageError, anything else propagates.
\<close>

definition magick_check :: "env \<Rightarrow> string \<Rightarrow> unit io" where
  "magick_check env filename =
     ([WandOpen filename],
      (case wand_result env filename of
         None \<Rightarrow> Inr ()
       | Some (Warning w) \<Rightarrow> Inl (CorruptImageError w)
       | Some e \<Rightarrow> Inl e))"

definition magick_identify_check :: "env \<Rightarrow> string \<Rightarrow> unit io" where
  "magick_identify_check env filename =
     ([MagickIdentify filename],
      (case identify_result env filename of
         Inl e \<Rightarrow> Inl e
       | Inr exitcode \<Rightarrow>
           if exitcode \<noteq> 0
           then Inl (Exception [PStr (''Identify error:'' @ str_int exitcode)])
           else Inr ()))"

text \<open>
  The loop of \<^verbatim>\<open>check_zeros\<close> over the bytes of the file; the state is
  \<open>(num, maxnum, prev, maxprev)\<close>.
\<close>

fun zeros_loop :: "byte list \<Rightarrow> int \<times> int \<times> byte option \<times> byte option
    \<Rightarrow> int \<times> int \<times> byte option \<times> byte option" where
  "zeros_loop [] st = st"
| "zeros_loop (i # rest) (num, maxnum, prev, maxprev) =
     (if prev = Some i
      then zeros_loop rest (num + 1, maxnum, prev, maxprev)
      else if num > maxnum
           then zeros_loop rest (1, num, Some i, prev)
           else zeros_loop rest (1, maxnum, Some i, maxprev))"

definition byte_val :: "byte option \<Rightarrow> pyval" where
  "byte_val b = (case b of None \<Rightarrow> PNone | Some w \<Rightarrow> PInt (uint w))"

definition check_zeros :: "env \<Rightarrow> string \<Rightarrow> int option \<Rightarrow> pyval io" where
  "check_zeros env filename length_seq_threshold =
     io_bind ([ReadFile filename], file_bytes env filename) (\<lambda>thefilearray.
       (case zeros_loop thefilearray (1, 1, None, None) of
          (num, maxnum0, prev, maxprev) \<Rightarrow>
            (let maxnum = (if num > maxnum0 then num else maxnum0)
             in case length_seq_threshold of
                  None \<Rightarrow> io_ret (PInt maxnum)
                | Some threshold \<Rightarrow>
                    if maxnum \<ge> threshold
                    then io_raise (Exception [PStr ''Equal value sequence, value:'',
                                              byte_val maxprev, PStr ''len:'', PInt maxnum])
                    else io_ret PNone)))"

definition check_size :: "env \<Rightarrow> string \<Rightarrow> bool \<Rightarrow> int io" where
  "check_size env filename zero_exception =
     io_bind ([Stat filename], os_stat env filename) (\<lambda>st_size.
       (let filesize = int st_size
        in if filesize = 0 \<and> zero_exception
           then io_raise (SyntaxError ''Zero size file'')
           else io_ret filesize))"

definition ffmpeg_check :: "env \<Rightarrow> string \<Rightarrow> string \<Rightarrow> int \<Rightarrow> unit io" where
  "ffmpeg_check env filename err_detect nthreads =
     (let kwargs =
            (if err_detect = ''default'' then []
             else (let custom = (if err_detect = ''strict''
                                 then ''+crccheck+bitstream+buffer+explode''
                                 else err_detect)
                   in [(''err_detect'', PStr custom), (''threads'', PInt nthreads)]))
      in ([FfmpegRun filename kwargs], io_optional (ffmpeg_result env filename kwargs)))"

subsection \<open>check\_file\<close>

text \<open>
  The statements of the \<^verbatim>\<open>try\<close> block after the assignment of
  \<^verbatim>\<open>file_size\<close>. The argument of \<^verbatim>\<open>check_zeros\<close> is the attribute
  \<^verbatim>\<open>zero_detect\<close> of the global \<^verbatim>\<open>CONFIG\<close>, which is None until main
  assigns it.
\<close>

definition config_zero_detect :: "globals \<Rightarrow> int io" where
  "config_zero_detect g = (case CONFIG g of
       None \<Rightarrow> io_raise (AttributeError (([CHR 0x27] @ ''NoneType'' @ [CHR 0x27])
                 @ '' object has no attribute '' @ ([CHR 0x27] @ ''zero_detect'' @ [CHR 0x27])))
     | Some c \<Rightarrow> io_ret (zero_detect c))"

definition check_rest :: "globals \<Rightarrow> env \<Rightarrow> string \<Rightarrow> string \<Rightarrow> string \<Rightarrow> int \<Rightarrow> int \<Rightarrow> unit io" where
  "check_rest g env filename file_ext err_detect zero_det ffmpeg_threads =
     io_seq (io_when (zero_det > 0)
               (io_bind (config_zero_detect g) (\<lambda>z.
                  io_seq (check_zeros env filename (Some z)) (io_ret ()))))
    (io_seq (io_when (file_ext \<in> set (PIL_EXTENSIONS g))
               (io_seq (pil_check env filename)
               (io_seq (magick_check env filename)
                       (magick_identify_check env filename))))
    (io_seq (io_when (file_ext \<in> set MAGICK_EXTENSIONS)
               (io_seq (magick_check env filename)
                       (magick_identify_check env filename)))
            (io_when (file_ext \<in> set VIDEO_EXTENSIONS)
               (ffmpeg_check env filename err_detect ffmpeg_threads))))"

text \<open>
  \<^verbatim>\<open>file_size\<close> is \<^verbatim>\<open>'NA'\<close> until \<^verbatim>\<open>check_size\<close> has returned; the
  \<^verbatim>\<open>except Exception\<close> clause sees whichever value it has when the exception
  arrives.
\<close>

definition check_file :: "globals \<Rightarrow> env \<Rightarrow> string \<Rightarrow> string \<Rightarrow> string \<Rightarrow> int \<Rightarrow> int
    \<Rightarrow> effect list \<times> outcome" where
  "check_file g env filename nominate_file_extension err_detect zero_det ffmpeg_threads =
     (let file_lowercase = lower filename;
          file_ext = (if nominate_file_extension \<noteq> [] then nominate_file_extension
                      else drop 1 (snd (splitext file_lowercase)))
      in case check_size env filename True of
           (t, Inl e) \<Rightarrow> (t, (False, (PStr filename, PStr (str_exn e), PStr ''NA'')))
         | (t, Inr file_size) \<Rightarrow>
             (case check_rest g env filename file_ext err_detect zero_det ffmpeg_threads of
                (t', Inl e) \<Rightarrow> (t @ t', (False, (PStr filename, PStr (str_exn e), PInt file_size)))
              | (t', Inr _) \<Rightarrow> (t @ t', (True, (PStr filename, PNone, PInt file_size)))))"

definition log_check_outcome :: "detail \<Rightarrow> effect list" where
  "log_check_outcome check_outcome_detail =
     [Print [PStr ''Bad file:'', fst check_outcome_detail, PStr '', error detail:'',
             fst (snd check_outcome_detail), PStr '', size[bytes]:'',
             snd (snd check_outcome_detail)]]"

text \<open>What a worker does with one task it has pulled from the task queue.\<close>

definition worker_check :: "globals \<Rightarrow> env \<Rightarrow> config \<Rightarrow> string \<Rightarrow> effect list \<times> outcome" where
  "worker_check g env cfg full_filename =
     check_file g env full_filename [] (error_detect cfg) (zero_detect cfg) 0"

subsection \<open>TimedLogger\<close>

record timed_logger =
  previous_time :: real
  previous_size :: int
  start_time :: real

definition TimedLogger_init :: timed_logger where
  "TimedLogger_init = \<lparr> previous_time = 0, previous_size = 0, start_time = 0 \<rparr>"

text \<open>\<^verbatim>\<open>start\<close>: \<open>now\<close> is what \<^verbatim>\<open>time.time()\<close> returns.\<close>

definition logger_start :: "timed_logger \<Rightarrow> real \<Rightarrow> timed_logger" where
  "logger_start self now = self\<lparr> previous_time := now, start_time := now \<rparr>"

text \<open>
  \<^verbatim>\<open>print_log\<close>: \<open>now\<close> is what \<^verbatim>\<open>time.time()\<close> returns if the call gets
  that far. The result is the lines printed, the exception raised if any, and the
  logger as the call leaves it. Both fields are assigned before the speeds are
  computed, so the division by a zero \<^verbatim>\<open>from_start_delta\<close> raises after the update.
\<close>

definition print_log :: "timed_logger \<Rightarrow> int \<Rightarrow> int \<Rightarrow> int \<Rightarrow> int \<Rightarrow> bool \<Rightarrow> real
    \<Rightarrow> effect list \<times> exn option \<times> timed_logger" where
  "print_log self num_files num_bad_files total_size wait_min_processed force now =
     (if \<not> force \<and> (total_size - previous_size self) < wait_min_processed * (1024 * 1024)
      then ([], None, self)
      else (let cur_time = now;
                from_previous_delta = cur_time - previous_time self
            in if from_previous_delta > real_of_int UPDATE_SEC_INTERVAL \<or> force
               then (let self' = self\<lparr> previous_time := cur_time, previous_size := total_size \<rparr>;
                         from_start_delta = cur_time - start_time self'
                     in if from_start_delta = 0
                        then ([], Some (ZeroDivisionError ''float division by zero''), self')
                        else (let speed_MB = real_of_int total_size / (1024 * 1024 * from_start_delta);
                                  speed_IS = real_of_int num_files / from_start_delta;
                                  processed_size_MB = real_of_int total_size / (1024 * 1024)
                              in ([PrintProgress num_bad_files num_files processed_size_MB,
                                   PrintSpeed speed_MB speed_IS], None, self')))
               else ([], None, self)))"

subsection \<open>The report\<close>

definition csv_header :: detail where
  "csv_header = (PStr ''file_name'', PStr ''error_message'', PStr ''file_size[bytes]'')"

definition tuple_list :: "detail \<Rightarrow> pyval list" where
  "tuple_list entry = [fst entry, fst (snd entry), snd (snd entry)]"

text \<open>
  \<^verbatim>\<open>save_csv\<close>: one \<^verbatim>\<open>writerow(list(entry))\<close> for each entry, into a file opened
  for writing. The text that the csv module makes of a row is not modelled.
\<close>

definition save_csv :: "env \<Rightarrow> string \<Rightarrow> detail list \<Rightarrow> unit io" where
  "save_csv env filename data =
     (case open_write env filename of
        Some e \<Rightarrow> io_raise e
      | None \<Rightarrow> ([WriteCsv filename (map tuple_list data)], Inr ()))"

subsection \<open>The scanner\<close>

fun startswith :: "string \<Rightarrow> string \<Rightarrow> bool" where
  "startswith s [] = True"
| "startswith [] (p # ps) = False"
| "startswith (x # xs) (p # ps) = (x = p \<and> startswith xs ps)"

text \<open>\<^verbatim>\<open>sub in s\<close> for strings.\<close>

fun contains :: "string \<Rightarrow> string \<Rightarrow> bool" where
  "contains [] sub = (sub = [])"
| "contains (x # xs) sub = (startswith (x # xs) sub \<or> contains xs sub)"

definition is_pil_simd :: "env \<Rightarrow> bool" where
  "is_pil_simd env = contains (pil_version env) ''post''"

text \<open>The thumbnail check that main makes in every directory it visits.\<close>

definition thumb_check :: "env \<Rightarrow> string \<Rightarrow> unit io" where
  "thumb_check env dirpath =
     (let thumb = dirpath @ ''/'' @ ''.thumb''
      in if path_exists env thumb
         then (case pil_check env thumb of
                 (t, Inr _) \<Rightarrow> (t, Inr ())
               | (t, Inl _) \<Rightarrow>
                   (t @ [Print [PStr (''Removing thumbnail: '' @ thumb)], Remove thumb],
                    io_optional (os_remove env thumb)))
         else io_ret ())"

text \<open>
  The loop over \<^verbatim>\<open>os.walk(check_path)\<close>; the state is \<open>pre_count\<close> and the
  task queue. Without \<^verbatim>\<open>is_recurse\<close> the loop breaks after the first directory.
\<close>

fun scan :: "globals \<Rightarrow> env \<Rightarrow> bool \<Rightarrow> (string \<times> string list \<times> string list) list
    \<Rightarrow> nat \<times> string list \<Rightarrow> (nat \<times> string list) io" where
  "scan g env recurse [] st = io_ret st"
| "scan g env recurse ((dirpath, sub_dirs, files) # later) (pre_count, task_queue) =
     (let media_files = filter (is_target_file g) files
      in io_bind (thumb_check env dirpath) (\<lambda>_.
           (let st' = (pre_count + length media_files,
                       task_queue @ map (path_join dirpath) media_files)
            in if \<not> recurse then io_ret st' else scan g env recurse later st')))"

subsection \<open>The collector\<close>

record cstate =
  count :: int
  count_bad :: int
  total_file_size :: int
  bad_files_info :: "detail list"
  logger :: timed_logger

text \<open>
  The body of the collecting loop after \<^verbatim>\<open>out_queue.get\<close> has returned
  \<open>is_success\<close>. Adding a size that is neither \<^verbatim>\<open>'NA'\<close> nor an integer to
  the integer total is a TypeError.
\<close>

definition consume :: "cstate \<Rightarrow> outcome \<Rightarrow> real \<Rightarrow> effect list \<times> exn option \<times> cstate" where
  "consume st is_success now =
     (let file_size = snd (snd (snd is_success));
          added = (if file_size \<noteq> PStr ''NA''
                   then (case file_size of
                           PInt n \<Rightarrow> Inr (st\<lparr> total_file_size := total_file_size st + n \<rparr>)
                         | _ \<Rightarrow> Inl (TypeError ''unsupported operand type(s) for +=''))
                   else Inr st)
      in case added of
           Inl e \<Rightarrow> ([], Some e, st)
         | Inr st2 \<Rightarrow>
             (let (t1, st3) =
                    (if \<not> fst is_success
                     then (let check_outcome_detail = snd is_success
                           in (log_check_outcome check_outcome_detail,
                               st2\<lparr> count_bad := count_bad st2 + 1,
                                     bad_files_info := bad_files_info st2 @ [check_outcome_detail] \<rparr>))
                     else ([], st2))
              in case print_log (logger st3) (count st3) (count_bad st3) (total_file_size st3)
                        UPDATE_MB_INTERVAL False now of
                   (t2, ex, lg) \<Rightarrow> (t1 @ t2, ex, st3\<lparr> logger := lg \<rparr>)))"

text \<open>
  \<^verbatim>\<open>for j in range(pre_count)\<close>: the counter is incremented, then the queue is
  read. The result is the effects, the exception that ended the loop if any, and the
  variables as the loop leaves them.
\<close>

fun collect :: "nat \<Rightarrow> (outcome \<times> real) list \<Rightarrow> cstate \<Rightarrow> effect list \<times> exn option \<times> cstate" where
  "collect 0 queue st = ([], None, st)"
| "collect (Suc n) queue st =
     (let st1 = st\<lparr> count := count st + 1 \<rparr>
      in case queue of
           [] \<Rightarrow> ([], Some Empty, st1)
         | (is_success, now) # rest \<Rightarrow>
             (case consume st1 is_success now of
                (t, Some e, st2) \<Rightarrow> (t, Some e, st2)
              | (t, None, st2) \<Rightarrow>
                  (case collect n rest st2 of (t', r, st3) \<Rightarrow> (t @ t', r, st3))))"

subsection \<open>main\<close>

text \<open>How a run of main ends.\<close>

datatype ending = Returned | Exit int | Uncaught exn

definition banner :: "effect list" where
  "banner =
     [Print [PStr ''********WARNING*******************************************************''],
      Print [PStr ''You are using Python Pillow PIL module and not the Pillow-SIMD module.''],
      Print [PStr ''Pillow-SIMD is a 4x faster drop-in replacement of the base PIL module.''],
      Print [PStr ''Uninstalling Pillow PIL and installing Pillow-SIMD is a good idea.''],
      Print [PStr ''**********************************************************************'']]"

text \<open>The single-file branch of main; the call passes three arguments to check\_file.\<close>

definition single_file :: "globals \<Rightarrow> env \<Rightarrow> config \<Rightarrow> effect list \<times> ending" where
  "single_file g env cfg =
     (let check_path = checkpath cfg
      in case check_file g env check_path [] (error_detect cfg) 0 0 of
           (t, is_success) \<Rightarrow>
             if \<not> fst is_success
             then (t @ log_check_outcome (snd is_success), Exit 1)
             else (t @ [Print [PStr ''File'', PStr check_path, PStr ''is OK'']], Exit 0))"

text \<open>
  What main does after the collecting loop and its \<^verbatim>\<open>except Empty\<close> clause:
  the forced progress line, the report, the verdict.
\<close>

definition finish :: "env \<Rightarrow> config \<Rightarrow> cstate \<Rightarrow> effect list \<times> ending" where
  "finish env cfg st =
     (case print_log (logger st) (count st) (count_bad st) (total_file_size st)
             UPDATE_MB_INTERVAL True (final_clock env) of
        (t1, Some e, _) \<Rightarrow> (Print [PStr ''\<newline>**Task completed**\<newline>''] # t1, Uncaught e)
      | (t1, None, _) \<Rightarrow>
          (let verdict = (if count_bad st = 0 then [Print [PStr ''The files are OK :-)'']]
                          else [Print [PStr ''Few files look damaged :-('']])
           in case (if count_bad st > 0 \<and> enable_csv cfg
                    then (case csv_filename cfg of
                            Some name \<Rightarrow>
                              io_seq ([Print [PStr ''\<newline>Save details for bad files in CSV format, file path:'',
                                              PStr name]], Inr ())
                                     (save_csv env name (bad_files_info st))
                          | None \<Rightarrow> io_ret ())
                    else io_ret ()) of
                (t2, Inl e) \<Rightarrow> (Print [PStr ''\<newline>**Task completed**\<newline>''] # t1 @ t2, Uncaught e)
              | (t2, Inr _) \<Rightarrow>
                  (Print [PStr ''\<newline>**Task completed**\<newline>''] # t1 @ t2 @ verdict, Returned)))"

text \<open>
  The \<^verbatim>\<open>except Empty as e\<close> clause: the arguments of print are evaluated first,
  and \<^verbatim>\<open>e.message\<close> is one of them.
\<close>

definition empty_handler :: "exn \<Rightarrow> unit io" where
  "empty_handler e =
     (case getattr_message e of
        Inl err \<Rightarrow> io_raise err
      | Inr m \<Rightarrow>
          ([Print [PStr ''Waiting other results for too much time, perhaps you have to raise the timeout'',
                   m]], Inr ()))"

definition initial_cstate :: "env \<Rightarrow> cstate" where
  "initial_cstate env =
     \<lparr> count = 0, count_bad = 0, total_file_size = 0, bad_files_info = [csv_header],
       logger = logger_start TimedLogger_init (start_clock env) \<rparr>"

text \<open>The folder branch of main.\<close>

definition folder :: "globals \<Rightarrow> env \<Rightarrow> config \<Rightarrow> effect list \<times> ending" where
  "folder g env cfg =
     (case scan g env (is_recurse cfg) (os_walk env (checkpath cfg)) (0, []) of
        (t0, Inl e) \<Rightarrow> (t0, Uncaught e)
      | (t0, Inr (pre_count, task_queue)) \<Rightarrow>
          (let workers = replicate (nat (threads cfg)) StartWorker
           in case collect pre_count (arrivals env) (initial_cstate env) of
                (t1, None, st) \<Rightarrow>
                  (case finish env cfg st of (t2, r) \<Rightarrow> (t0 @ workers @ t1 @ t2, r))
              | (t1, Some Empty, st) \<Rightarrow>
                  (case empty_handler Empty of
                     (t2, Inl e) \<Rightarrow> (t0 @ workers @ t1 @ t2, Uncaught e)
                   | (t2, Inr _) \<Rightarrow>
                       (case finish env cfg st of (t3, r) \<Rightarrow> (t0 @ workers @ t1 @ t2 @ t3, r)))
              | (t1, Some e, st) \<Rightarrow> (t0 @ workers @ t1, Uncaught e)))"

text \<open>\<open>cfg\<close> is what \<^verbatim>\<open>arg_parser()\<close> returns.\<close>

definition main :: "env \<Rightarrow> config \<Rightarrow> effect list \<times> ending" where
  "main env cfg =
     (let t0 = (if \<not> is_pil_simd env then banner else []);
          g = setup_config cfg (module_globals\<lparr> CONFIG := Some cfg \<rparr>);
          check_path = checkpath cfg;
          t1 = [Print [PStr ''Files integrity check for:'', PStr check_path]]
      in case (if isfile env check_path then single_file g env cfg else folder g env cfg) of
           (t2, r) \<Rightarrow> (t0 @ t1 @ t2, r))"

subsection \<open>The scanner's rule as the specification words it\<close>

text \<open>The substring after the last dot, and the part before that dot.\<close>

definition after_last_dot :: "string \<Rightarrow> string" where
  "after_last_dot s = rev (takeWhile (\<lambda>ch. ch \<noteq> CHR ''.'') (rev s))"

definition before_last_dot :: "string \<Rightarrow> string" where
  "before_last_dot s = rev (drop 1 (dropWhile (\<lambda>ch. ch \<noteq> CHR ''.'') (rev s)))"

text \<open>
  The extension of a bare file name: the substring after the last dot of the
  lowercased name when some character other than a dot precedes that dot, and the
  empty string otherwise.
\<close>

definition spec_extension :: "string \<Rightarrow> string" where
  "spec_extension filename =
     (let s = lower filename
      in if (\<exists>ch \<in> set (before_last_dot s). ch \<noteq> CHR ''.'') then after_last_dot s else [])"

subsection \<open>Example inputs\<close>

definition demo_config :: config where
  "demo_config = \<lparr> checkpath = ''media'', csv_filename = Some ''bad.csv'', is_recurse = False,
     zero_detect = 2, is_disable_image = False, is_enable_media = True, is_disable_extra = False,
     error_detect = ''strict'', threads = 2, timeout = 120 \<rparr>"

definition demo_globals :: globals where
  "demo_globals = setup_config demo_config (module_globals\<lparr> CONFIG := Some demo_config \<rparr>)"

text \<open>
  A folder \<^verbatim>\<open>media\<close> with an empty JPEG, a three-byte MP3, a PNG made of three
  bytes of value 7, and a README. Every library accepts every file. Two outcomes
  arrive in time.
\<close>

definition demo_env :: env where
  "demo_env = \<lparr>
     os_stat = (\<lambda>f. if f = ''media/empty.jpg'' then Inr 0 else Inr 3),
     file_bytes = (\<lambda>f. if f = ''media/run.png'' then Inr [7, 7, 7] else Inr [1, 2, 3]),
     pil_result = (\<lambda>f. None),
     wand_result = (\<lambda>f. None),
     identify_result = (\<lambda>f. Inr 0),
     ffmpeg_result = (\<lambda>f kw. None),
     isfile = (\<lambda>f. f = ''media/run.png''),
     path_exists = (\<lambda>f. False),
     os_walk = (\<lambda>p. [(''media'', [], [''empty.jpg'', ''song.mp3'', ''README''])]),
     os_remove = (\<lambda>f. None),
     open_write = (\<lambda>f. None),
     pil_version = ''11.0.0'',
     start_clock = 100,
     arrivals = [((False, (PStr ''media/empty.jpg'', PStr ''Zero size file'', PStr ''NA'')), 101),
                 ((True, (PStr ''media/song.mp3'', PNone, PInt 3)), 102)],
     final_clock = 130 \<rparr>"

text \<open>The same run when only the first outcome arrives before the timeout.\<close>

definition late_env :: env where
  "late_env = demo_env\<lparr> arrivals := take 1 (arrivals demo_env) \<rparr>"



text \<open>A logger started at time 100.\<close>

definition demo_logger :: timed_logger where
  "demo_logger = logger_start TimedLogger_init 100"

subsection \<open>The report as the specification words it\<close>


section \<open>Properties\<close>

subsection \<open>Extensions\<close>

lemma rfind_from_append:
  "rfind_from (xs @ ys) c i found = rfind_from ys c (i + length xs) (rfind_from xs c i found)"
  by (induction xs arbitrary: i found) auto

lemma rfind_from_absent: "c \<notin> set xs \<Longrightarrow> rfind_from xs c i found = found"
  by (induction xs arbitrary: i found) auto

lemma rfind_absent: "c \<notin> set p \<Longrightarrow> rfind p c = - 1"
  by (simp add: rfind_def rfind_from_absent)

lemma rfind_last: "c \<notin> set b \<Longrightarrow> rfind (a @ c # b) c = int (length a)"
  by (simp add: rfind_def rfind_from_append rfind_from_absent)

lemma rfind_from_lower: "found \<ge> - 1 \<Longrightarrow> rfind_from xs c i found \<ge> - 1"
  by (induction xs arbitrary: i found) auto

lemma takeWhile_upto: "c \<notin> set xs \<Longrightarrow> takeWhile (\<lambda>ch. ch \<noteq> c) (xs @ c # r) = xs"
  by (induction xs) auto

lemma dropWhile_upto: "c \<notin> set xs \<Longrightarrow> dropWhile (\<lambda>ch. ch \<noteq> c) (xs @ c # r) = c # r"
  by (induction xs) auto

lemma after_last_dot_split: "CHR ''.'' \<notin> set b \<Longrightarrow> after_last_dot (a @ CHR ''.'' # b) = b"
  by (simp add: after_last_dot_def takeWhile_upto)

lemma before_last_dot_split: "CHR ''.'' \<notin> set b \<Longrightarrow> before_last_dot (a @ CHR ''.'' # b) = a"
  by (simp add: before_last_dot_def dropWhile_upto)

lemma before_last_dot_nodot: "CHR ''.'' \<notin> set s \<Longrightarrow> before_last_dot s = []"
proof -
  assume "CHR ''.'' \<notin> set s"
  then have "dropWhile (\<lambda>ch. ch \<noteq> CHR ''.'') (rev s) = []" by auto
  then show ?thesis by (simp only: before_last_dot_def drop_Nil rev.simps)
qed

lemma dropWhile_dots: "dropWhile (\<lambda>ch. ch = c) a \<noteq> [] \<longleftrightarrow> (\<exists>x \<in> set a. x \<noteq> c)"
  by (induction a) auto

lemma splitext_dot:
  assumes "CHR ''/'' \<notin> set (a @ CHR ''.'' # b)" "CHR ''.'' \<notin> set b"
  shows "splitext (a @ CHR ''.'' # b) =
     (if (\<exists>x \<in> set a. x \<noteq> CHR ''.'') then (a, CHR ''.'' # b) else (a @ CHR ''.'' # b, []))"
  using assms
  by (simp add: splitext_def rfind_last rfind_absent dropWhile_dots del: set_append)

lemma splitext_nodot: "CHR ''.'' \<notin> set s \<Longrightarrow> splitext s = (s, [])"
proof -
  assume a: "CHR ''.'' \<notin> set s"
  have "rfind s CHR ''/'' \<ge> -1"
    by (simp add: rfind_def rfind_from_lower)
  thus ?thesis using a by (simp add: splitext_def rfind_absent)
qed

lemma lower_char_fixes:
  assumes "(of_char c0 :: nat) < 65"
  shows "lower_char c = c0 \<longleftrightarrow> c = c0"
proof (cases "65 \<le> (of_char c :: nat) \<and> (of_char c :: nat) \<le> 90")
  case True
  then have "(of_char (lower_char c) :: nat) = of_char c + 32"
    by (simp add: lower_char_def Let_def)
  with True assms show ?thesis by auto
next
  case False
  then show ?thesis by (auto simp add: lower_char_def Let_def)
qed

lemma lower_keeps:
  assumes "(of_char c0 :: nat) < 65"
  shows "c0 \<in> set (lower s) \<longleftrightarrow> c0 \<in> set s"
proof -
  have "c0 \<in> set (lower s) \<longleftrightarrow> (\<exists>x \<in> set s. lower_char x = c0)"
    by (auto simp add: lower_def)
  then show ?thesis by (simp add: lower_char_fixes [OF assms])
qed

lemma get_extension_spec:
  assumes "CHR ''/'' \<notin> set filename"
  shows "get_extension filename = spec_extension filename"
proof -
  let ?s = "lower filename"
  have slash: "CHR ''/'' \<notin> set ?s"
    using assms by (simp add: lower_keeps)
  show ?thesis
  proof (cases "CHR ''.'' \<in> set ?s")
    case True
    then obtain a b where ab: "?s = a @ CHR ''.'' # b" "CHR ''.'' \<notin> set b"
      using split_list_last by fastforce
    have "splitext ?s =
      (if (\<exists>x \<in> set a. x \<noteq> CHR ''.'') then (a, CHR ''.'' # b) else (?s, []))"
      using splitext_dot [of a b] slash ab by simp
    then show ?thesis
      by (simp add: get_extension_def spec_extension_def ab before_last_dot_split
          after_last_dot_split del: set_append)
  next
    case False
    then show ?thesis
      by (simp add: get_extension_def spec_extension_def splitext_nodot before_last_dot_nodot)
  qed
qed

lemma setup_no_empty_extension: "[] \<notin> set (MEDIA_EXTENSIONS (setup_config c module_globals))"
  by (simp add: setup_config_def module_globals_def Let_def PIL_EXTENSIONS_init_def
      PIL_EXTRA_EXTENSIONS_def MAGICK_EXTENSIONS_def VIDEO_EXTENSIONS_def AUDIO_EXTENSIONS_def)

subsection \<open>Effects of the probes and of the collector\<close>








lemma io_bind_effects:
  assumes "e \<in> set (fst (io_bind m f))"
  shows "e \<in> set (fst m) \<or> (\<exists>x. e \<in> set (fst (f x)))"
proof (cases m)
  case (Pair t r)
  show ?thesis
  proof (cases r)
    case (Inl err)
    with Pair assms show ?thesis by (simp add: io_bind_def)
  next
    case (Inr x)
    with Pair assms have "e \<in> set t \<or> e \<in> set (fst (f x))"
      by (auto simp add: io_bind_def split: prod.splits)
    with Pair show ?thesis by auto
  qed
qed

lemma io_seq_effects: "e \<in> set (fst (io_seq m k)) \<Longrightarrow> e \<in> set (fst m) \<or> e \<in> set (fst k)"
  unfolding io_seq_def by (drule io_bind_effects) auto

lemma io_when_effects: "e \<in> set (fst (io_when b m)) \<Longrightarrow> b \<and> e \<in> set (fst m)"
  by (cases b) (simp_all add: io_when_def io_ret_def)

lemma pil_check_effects [simp]: "fst (pil_check env f) = [PilCheck f]"
  by (simp add: pil_check_def)

lemma magick_check_effects [simp]: "fst (magick_check env f) = [WandOpen f]"
  by (simp add: magick_check_def)

lemma magick_identify_check_effects [simp]: "fst (magick_identify_check env f) = [MagickIdentify f]"
  by (simp add: magick_identify_check_def)

lemma ffmpeg_check_effects: "\<exists>kw. fst (ffmpeg_check env f ed th) = [FfmpegRun f kw]"
  by (simp add: ffmpeg_check_def Let_def)

lemma check_zeros_effects [simp]: "fst (check_zeros env f thr) = [ReadFile f]"
proof (cases "file_bytes env f")
  case (Inl err)
  then show ?thesis by (simp add: check_zeros_def io_bind_def)
next
  case (Inr bs)
  obtain num maxnum prev maxprev where z: "zeros_loop bs (1, 1, None, None) = (num, maxnum, prev, maxprev)"
    by (metis prod_cases4)
  show ?thesis
    by (cases thr) (simp_all add: check_zeros_def io_bind_def Inr z Let_def io_ret_def io_raise_def)
qed

lemma check_rest_effects:
  assumes "e \<in> set (fst (check_rest g env f ext ed zd th))"
  shows "(e = ReadFile f \<and> zd > 0) \<or> e = PilCheck f \<or> e = WandOpen f \<or> e = MagickIdentify f
       \<or> (\<exists>kw. e = FfmpegRun f kw)"
proof -
  have zeros: "e \<in> set (fst (io_when (zd > 0) (io_bind (config_zero_detect g) (\<lambda>z.
                  io_seq (check_zeros env f (Some z)) (io_ret ()))))) \<Longrightarrow> e = ReadFile f \<and> zd > 0"
    by (auto simp add: config_zero_detect_def io_ret_def io_raise_def
        dest!: io_when_effects io_bind_effects io_seq_effects
        split: option.splits)
  have magick: "e \<in> set (fst (io_seq (magick_check env f) (magick_identify_check env f)))
      \<Longrightarrow> e = WandOpen f \<or> e = MagickIdentify f"
    by (auto dest!: io_seq_effects)
  have pil: "e \<in> set (fst (io_seq (pil_check env f)
               (io_seq (magick_check env f) (magick_identify_check env f))))
      \<Longrightarrow> e = PilCheck f \<or> e = WandOpen f \<or> e = MagickIdentify f"
    by (auto dest!: io_seq_effects)
  have ff: "e \<in> set (fst (ffmpeg_check env f ed th)) \<Longrightarrow> \<exists>kw. e = FfmpegRun f kw"
    using ffmpeg_check_effects [of env f ed th] by auto
  from assms show ?thesis
    unfolding check_rest_def
    using zeros magick pil ff
    by (blast dest: io_seq_effects io_when_effects)
qed

lemma check_size_effects: "fst (check_size env f z) = [Stat f]"
  by (simp add: check_size_def io_bind_def io_ret_def io_raise_def Let_def
      split: sum.splits prod.splits)

lemma check_file_effects:
  assumes "e \<in> set (fst (check_file g env f n ed zd th))"
  shows "e = Stat f \<or> (e = ReadFile f \<and> zd > 0) \<or> e = PilCheck f \<or> e = WandOpen f
       \<or> e = MagickIdentify f \<or> (\<exists>kw. e = FfmpegRun f kw)"
proof -
  obtain t r where cs: "check_size env f True = (t, r)" by (cases "check_size env f True")
  have t: "t = [Stat f]" using check_size_effects [of env f True] cs by simp
  show ?thesis
  proof (cases r)
    case (Inl err)
    with assms cs t show ?thesis by (simp add: check_file_def Let_def)
  next
    case (Inr file_size)
    let ?ext = "if n \<noteq> [] then n else drop 1 (snd (splitext (lower f)))"
    obtain t' r' where cr: "check_rest g env f ?ext ed zd th = (t', r')"
      by (cases "check_rest g env f ?ext ed zd th")
    have "fst (check_file g env f n ed zd th) = t @ t'"
      using cs Inr cr by (simp add: check_file_def Let_def split: sum.splits)
    with assms t have "e = Stat f \<or> e \<in> set (fst (check_rest g env f ?ext ed zd th))"
      using cr by auto
    then show ?thesis using check_rest_effects by blast
  qed
qed














lemma check_file_globals:
  "PIL_EXTENSIONS g = PIL_EXTENSIONS g' \<Longrightarrow>
   check_file g env f n ed 0 th = check_file g' env f n ed 0 th"
  by (simp add: check_file_def check_rest_def io_when_def)

lemma setup_config_PIL:
  "PIL_EXTENSIONS (setup_config cfg g)
     = (if is_disable_extra cfg then PIL_EXTENSIONS g else PIL_EXTENSIONS g @ PIL_EXTRA_EXTENSIONS)"
  by (simp add: setup_config_def Let_def)

subsection \<open>The collector on a timeout\<close>

text \<open>
  Whenever the loop ends with \<^verbatim>\<open>Empty\<close>, fewer outcomes arrived than tasks were
  queued, the counter is one more than the number of outcomes received, and the folder
  branch of main ends with the AttributeError of the handler.
\<close>

lemma print_log_not_Empty:
  "fst (snd (print_log self nf nb tot wait force now)) \<noteq> Some Empty"
  by (simp add: print_log_def Let_def)

lemma consume_count:
  "fst (snd (consume st is_success now)) \<noteq> Some Empty
   \<and> count (snd (snd (consume st is_success now))) = count st"
  by (simp add: consume_def Let_def case_prod_beta print_log_not_Empty
      split: sum.splits pyval.splits)

lemma collect_timeout_count:
  "collect n queue st = (t, Some Empty, st') \<Longrightarrow>
     length queue < n \<and> count st' = count st + int (length queue) + 1"
proof (induction n arbitrary: queue st t st')
  case 0
  then show ?case by simp
next
  case (Suc n)
  show ?case
  proof (cases queue)
    case Nil
    with Suc.prems show ?thesis by (auto simp add: Let_def)
  next
    case (Cons a rest)
    obtain is_success now where a: "a = (is_success, now)" by (cases a)
    let ?st1 = "st\<lparr>count := count st + 1\<rparr>"
    obtain t1 r1 st1 where c: "consume ?st1 is_success now = (t1, r1, st1)"
      by (metis prod_cases3)
    have r1: "r1 \<noteq> Some Empty" and c1: "count st1 = count st + 1"
      using consume_count [of ?st1 is_success now] c by simp_all
    show ?thesis
    proof (cases r1)
      case None
      obtain t2 r2 st2 where d: "collect n rest st1 = (t2, r2, st2)" by (metis prod_cases3)
      have "r2 = Some Empty" "st2 = st'"
        using Suc.prems Cons a c None d by (simp_all add: Let_def)
      then have "length rest < n \<and> count st' = count st1 + int (length rest) + 1"
        using Suc.IH d by blast
      then show ?thesis using Cons c1 by simp
    next
      case (Some e)
      then have "e = Empty" using Suc.prems Cons a c by (simp add: Let_def)
      with Some r1 show ?thesis by simp
    qed
  qed
qed

lemma folder_timeout:
  assumes "scan g env (is_recurse cfg) (os_walk env (checkpath cfg)) (0, []) = (t0, Inr (pre_count, task_queue))"
    and "collect pre_count (arrivals env) (initial_cstate env) = (t1, Some Empty, st)"
  shows "folder g env cfg =
     (t0 @ replicate (nat (threads cfg)) StartWorker @ t1,
      Uncaught (AttributeError ([CHR 0x27] @ ''Empty'' @ [CHR 0x27] @ '' object has no attribute ''
                                @ [CHR 0x27] @ ''message'' @ [CHR 0x27])))"
  using assms
  by (simp add: folder_def Let_def empty_handler_def getattr_message_def class_name_def io_raise_def)

subsection \<open>The claims\<close>

text \<open>
  Claim C1, evaluated on the code. Two tasks are queued and one outcome arrives before the
  timeout. The \<^verbatim>\<open>except Empty\<close> clause then reads \<^verbatim>\<open>e.message\<close>, which
  raises AttributeError; main ends with that exception after the line for the one bad
  file, and neither the line \<^verbatim>\<open>**Task completed**\<close>, nor the forced progress
  line, nor the report is produced.
\<close>

theorem timeout_ends_run:
  "snd (scan demo_globals late_env (is_recurse demo_config) (os_walk late_env (checkpath demo_config)) (0, []))
     = Inr (2, [''media/empty.jpg'', ''media/song.mp3''])
   \<and> length (arrivals late_env) = 1
   \<and> main late_env demo_config
       = (banner @ [Print [PStr ''Files integrity check for:'', PStr ''media''],
                    StartWorker, StartWorker,
                    Print [PStr ''Bad file:'', PStr ''media/empty.jpg'', PStr '', error detail:'',
                           PStr ''Zero size file'', PStr '', size[bytes]:'', PStr ''NA'']],
          Uncaught (AttributeError ([CHR 0x27] @ ''Empty'' @ [CHR 0x27] @ '' object has no attribute ''
                                    @ [CHR 0x27] @ ''message'' @ [CHR 0x27])))"
  by code_simp

text \<open>
  Claim C2, evaluated on the code. Two tasks are queued and one outcome arrives before the
  timeout. The loop ends with \<^verbatim>\<open>Empty\<close> and leaves \<open>count = 2\<close>, one more than
  the number of outcomes received, because the counter is incremented before the queue
  is read.
\<close>

theorem timeout_count_off_by_one:
  "length (arrivals late_env) = 1
   \<and> fst (snd (collect 2 (arrivals late_env) (initial_cstate late_env))) = Some Empty
   \<and> count (snd (snd (collect 2 (arrivals late_env) (initial_cstate late_env)))) = 2"
  by code_simp

text \<open>
  Claim C3. If stat reports a size of 0 bytes, check\_file returns a failure whose message
  is \<^verbatim>\<open>Zero size file\<close>, whatever the extension, the error-detection mode and the
  thresholds are; the stat call is the only effect, so no later probe runs.
\<close>

theorem zero_size_fails:
  assumes "os_stat env filename = Inr 0"
  shows "check_file g env filename ext ed zd th
     = ([Stat filename], (False, (PStr filename, PStr ''Zero size file'', PStr ''NA'')))"
  using assms
  by (simp add: check_file_def check_size_def io_bind_def io_raise_def str_exn_def)

text \<open>
  The hypothesis of C3 holds for the empty JPEG of the example folder, here checked with a
  video extension nominated.
\<close>

theorem zero_size_fails_witness:
  "os_stat demo_env ''media/empty.jpg'' = Inr 0
   \<and> check_file demo_globals demo_env ''media/empty.jpg'' ''mp4'' ''strict'' 2 0
       = ([Stat ''media/empty.jpg''],
          (False, (PStr ''media/empty.jpg'', PStr ''Zero size file'', PStr ''NA'')))"
proof -
  have h: "os_stat demo_env ''media/empty.jpg'' = Inr 0"
    by (simp add: demo_env_def)
  show ?thesis
    using h zero_size_fails [OF h, of demo_globals "''mp4''" "''strict''" 2 0] by simp
qed

text \<open>
  Claim C4, evaluated on the code. For the empty JPEG the stat call succeeds and reports
  0 bytes, yet the outcome carries \<^verbatim>\<open>'NA'\<close> as its size: \<^verbatim>\<open>check_size\<close>
  raises before its value is assigned to \<^verbatim>\<open>file_size\<close>.
\<close>

theorem zero_size_reported_unknown:
  "os_stat demo_env ''media/empty.jpg'' = Inr 0
   \<and> snd (worker_check demo_globals demo_env demo_config ''media/empty.jpg'')
       = (False, (PStr ''media/empty.jpg'', PStr ''Zero size file'', PStr ''NA''))"
  by code_simp

text \<open>
  Claim C5, evaluated on the code. \<^verbatim>\<open>mp3\<close> is an audio extension and the scanner
  accepts \<^verbatim>\<open>song.mp3\<close> when media files are enabled, but check\_file tests the
  extension against \<^verbatim>\<open>VIDEO_EXTENSIONS\<close> only: the file is reported good after the
  size and zero-run probes, and ffmpeg is never run on it.
\<close>

theorem audio_not_decoded:
  "''mp3'' \<in> set AUDIO_EXTENSIONS
   \<and> is_target_file demo_globals ''song.mp3''
   \<and> worker_check demo_globals demo_env demo_config ''media/song.mp3''
       = ([Stat ''media/song.mp3'', ReadFile ''media/song.mp3''],
          (True, (PStr ''media/song.mp3'', PNone, PInt 3)))"
  by code_simp

text \<open>
  Claim C6, evaluated on the code. The file consists of three bytes of value 7 and the
  threshold is 2. The outcome is a failure of the zero-run probe with length 3, but the
  value it reports is \<^verbatim>\<open>None\<close>: after the loop \<^verbatim>\<open>maxnum\<close> is updated for
  the last run and \<^verbatim>\<open>maxprev\<close> is not.
\<close>

theorem trailing_run_value_lost:
  "file_bytes demo_env ''media/run.png'' = Inr [7, 7, 7]
   \<and> zero_detect demo_config = 2
   \<and> worker_check demo_globals demo_env demo_config ''media/run.png''
       = ([Stat ''media/run.png'', ReadFile ''media/run.png''],
          (False, (PStr ''media/run.png'',
             PStr (str_exn (Exception [PStr ''Equal value sequence, value:'', PNone,
                                       PStr ''len:'', PInt 3])),
             PInt 3)))"
  by code_simp

text \<open>
  Claim C7, amended. For a file name without a path separator, the scanner includes the
  file if and only if its extension is in the allow-list, where the extension is the
  substring after the last dot of the lowercased name provided some character other than
  a dot precedes that dot, and is empty otherwise. A name without a dot is excluded for
  every allow-list that setup builds.
\<close>

theorem is_target_file_extension:
  assumes "CHR ''/'' \<notin> set filename"
  shows "(is_target_file g filename \<longleftrightarrow> spec_extension filename \<in> set (MEDIA_EXTENSIONS g))
     \<and> (CHR ''.'' \<notin> set filename \<longrightarrow> \<not> is_target_file (setup_config c module_globals) filename)"
proof -
  have ext: "get_extension filename = spec_extension filename"
    using assms by (rule get_extension_spec)
  have "CHR ''.'' \<notin> set filename \<Longrightarrow> spec_extension filename = []"
    by (simp add: spec_extension_def lower_keeps before_last_dot_nodot)
  then show ?thesis
    using setup_no_empty_extension [of c] by (auto simp add: is_target_file_def ext)
qed

text \<open>
  The hypotheses of C7 hold for \<^verbatim>\<open>README\<close>, which is excluded, and for
  \<^verbatim>\<open>Photo.JPG\<close>, which is included.
\<close>

theorem is_target_file_extension_witness:
  "CHR ''/'' \<notin> set ''README'' \<and> CHR ''.'' \<notin> set ''README''
   \<and> \<not> is_target_file (setup_config demo_config module_globals) ''README''
   \<and> CHR ''/'' \<notin> set ''Photo.JPG''
   \<and> spec_extension ''Photo.JPG'' \<in> set (MEDIA_EXTENSIONS demo_globals)
   \<and> is_target_file demo_globals ''Photo.JPG''"
proof -
  have h1: "CHR ''/'' \<notin> set ''README''" and h2: "CHR ''.'' \<notin> set ''README''"
    and h3: "CHR ''/'' \<notin> set ''Photo.JPG''"
    by simp_all
  have e: "spec_extension ''Photo.JPG'' \<in> set (MEDIA_EXTENSIONS demo_globals)"
    by code_simp
  show ?thesis
    using is_target_file_extension [OF h1, of demo_globals demo_config]
      is_target_file_extension [OF h3, of demo_globals demo_config] h1 h2 h3 e
    by blast
qed

text \<open>
  Claim C7 as stated fails for the file name \<^verbatim>\<open>.jpg\<close>: it contains a dot, the
  substring after its last dot is in the allow-list, and the scanner excludes it.
\<close>

theorem dotfile_excluded_counterexample:
  "CHR ''.'' \<in> set ''.jpg''
   \<and> after_last_dot (lower ''.jpg'') \<in> set (MEDIA_EXTENSIONS demo_globals)
   \<and> \<not> is_target_file demo_globals ''.jpg''"
  by code_simp



text \<open>
  Claim C9, amended. A call without the force flag prints only if the bytes processed since
  the last emission are at least the byte threshold and the time since the last emission
  exceeds the time threshold; when one of the two fails it prints nothing and leaves the
  logger as it is. A call that is forced, or passes both thresholds, and is made at a time
  other than the start time of the logger, prints both lines and records its own time and
  byte total in the logger, so that \<open>previous_time\<close> and \<open>previous_size\<close> are those
  of the last emission.
\<close>

theorem print_log_throttle:
  "(\<not> force \<and> fst (print_log self nf nb tot wait force now) \<noteq> []
      \<longrightarrow> tot - previous_size self \<ge> wait * (1024 * 1024)
          \<and> now - previous_time self > real_of_int UPDATE_SEC_INTERVAL)
   \<and> (\<not> force \<and> \<not> (tot - previous_size self \<ge> wait * (1024 * 1024)
                       \<and> now - previous_time self > real_of_int UPDATE_SEC_INTERVAL)
      \<longrightarrow> print_log self nf nb tot wait force now = ([], None, self))
   \<and> ((force \<or> (tot - previous_size self \<ge> wait * (1024 * 1024)
                 \<and> now - previous_time self > real_of_int UPDATE_SEC_INTERVAL))
       \<and> now \<noteq> start_time self
      \<longrightarrow> print_log self nf nb tot wait force now
           = ([PrintProgress nb nf (real_of_int tot / (1024 * 1024)),
               PrintSpeed (real_of_int tot / (1024 * 1024 * (now - start_time self)))
                          (real_of_int nf / (now - start_time self))],
              None, self\<lparr> previous_time := now, previous_size := tot \<rparr>))"
  by (auto simp add: print_log_def Let_def split: if_splits)

text \<open>
  The hypotheses of C9 are met by a logger started at time 100: an unforced call that
  prints at time 106 after 500 MiB, the next unforced call one second and one byte later,
  which prints nothing, and a forced call at time 130.
\<close>

theorem print_log_throttle_witness:
  "524288000 - previous_size demo_logger \<ge> UPDATE_MB_INTERVAL * (1024 * 1024)
   \<and> (106 :: real) - previous_time demo_logger > real_of_int UPDATE_SEC_INTERVAL
   \<and> (106 :: real) \<noteq> start_time demo_logger
   \<and> print_log demo_logger 1 0 524288000 UPDATE_MB_INTERVAL False 106
       = ([PrintProgress 0 1 500, PrintSpeed (500 / 6) (1 / 6)], None,
          demo_logger\<lparr> previous_time := 106, previous_size := 524288000 \<rparr>)
   \<and> \<not> (524288001 - previous_size (demo_logger\<lparr> previous_time := 106, previous_size := 524288000 \<rparr>)
          \<ge> UPDATE_MB_INTERVAL * (1024 * 1024))
   \<and> print_log (demo_logger\<lparr> previous_time := 106, previous_size := 524288000 \<rparr>)
         2 0 524288001 UPDATE_MB_INTERVAL False 107
       = ([], None, demo_logger\<lparr> previous_time := 106, previous_size := 524288000 \<rparr>)
   \<and> (130 :: real) \<noteq> start_time demo_logger
   \<and> fst (print_log demo_logger 2 1 3 UPDATE_MB_INTERVAL True 130)
       = [PrintProgress 1 2 (3 / (1024 * 1024)), PrintSpeed (3 / (1024 * 1024 * 30)) (2 / 30)]"
proof -
  let ?l = "demo_logger\<lparr> previous_time := 106, previous_size := 524288000 \<rparr>"
  have s: "start_time demo_logger = 100" "previous_time demo_logger = 100" "previous_size demo_logger = 0"
    by (simp_all add: demo_logger_def logger_start_def TimedLogger_init_def)
  have u: "UPDATE_MB_INTERVAL = 500" "UPDATE_SEC_INTERVAL = 5"
    by (simp_all add: UPDATE_MB_INTERVAL_def UPDATE_SEC_INTERVAL_def)
  have a: "524288000 - previous_size demo_logger \<ge> UPDATE_MB_INTERVAL * (1024 * 1024)"
    "(106 :: real) - previous_time demo_logger > real_of_int UPDATE_SEC_INTERVAL"
    "(106 :: real) \<noteq> start_time demo_logger"
    by (simp_all add: s u)
  have b: "\<not> (524288001 - previous_size ?l \<ge> UPDATE_MB_INTERVAL * (1024 * 1024))"
    by (simp add: u)
  have c: "(130 :: real) \<noteq> start_time demo_logger"
    by (simp add: s)
  have e1: "print_log demo_logger 1 0 524288000 UPDATE_MB_INTERVAL False 106
       = ([PrintProgress 0 1 (real_of_int 524288000 / (1024 * 1024)),
           PrintSpeed (real_of_int 524288000 / (1024 * 1024 * (106 - start_time demo_logger)))
                      (real_of_int 1 / (106 - start_time demo_logger))], None, ?l)"
    using a print_log_throttle [of False demo_logger 1 0 524288000 UPDATE_MB_INTERVAL 106]
    by blast
  have e2: "print_log ?l 2 0 524288001 UPDATE_MB_INTERVAL False 107 = ([], None, ?l)"
    using b print_log_throttle [of False ?l 2 0 524288001 UPDATE_MB_INTERVAL 107]
    by blast
  have e3: "print_log demo_logger 2 1 3 UPDATE_MB_INTERVAL True 130
       = ([PrintProgress 1 2 (real_of_int 3 / (1024 * 1024)),
           PrintSpeed (real_of_int 3 / (1024 * 1024 * (130 - start_time demo_logger)))
                      (real_of_int 2 / (130 - start_time demo_logger))], None,
          demo_logger\<lparr> previous_time := 130, previous_size := 3 \<rparr>)"
    using c print_log_throttle [of True demo_logger 2 1 3 UPDATE_MB_INTERVAL 130]
    by blast
  have e1': "print_log demo_logger 1 0 524288000 UPDATE_MB_INTERVAL False 106
       = ([PrintProgress 0 1 500, PrintSpeed (500 / 6) (1 / 6)], None, ?l)"
    using e1 by (simp add: s)
  have e3': "fst (print_log demo_logger 2 1 3 UPDATE_MB_INTERVAL True 130)
       = [PrintProgress 1 2 (3 / (1024 * 1024)), PrintSpeed (3 / (1024 * 1024 * 30)) (2 / 30)]"
    using e3 by (simp add: s)
  show ?thesis
    using a b c e1' e2 e3' by blast
qed

text \<open>
  Claim C9 as stated fails twice. An unforced call prints when the bytes since the last
  emission equal the threshold of 500 MiB without exceeding it; a forced call at the very
  start time prints nothing and raises ZeroDivisionError.
\<close>

theorem print_log_boundary_counterexample:
  "fst (print_log demo_logger 1 0 524288000 UPDATE_MB_INTERVAL False 106) \<noteq> []
   \<and> \<not> (524288000 - previous_size demo_logger > UPDATE_MB_INTERVAL * (1024 * 1024))
   \<and> print_log demo_logger 0 0 0 UPDATE_MB_INTERVAL True 100
       = ([], Some (ZeroDivisionError ''float division by zero''), demo_logger)"
  by code_simp

text \<open>
  Claim C10. When the path given to main is a file, no file is read for the zero-run probe,
  and the run is the same as with the threshold configured as 0.
\<close>

theorem single_file_skips_zero_run:
  assumes "isfile env (checkpath cfg)"
  shows "ReadFile f \<notin> set (fst (main env cfg))
       \<and> main env cfg = main env (cfg\<lparr> zero_detect := 0 \<rparr>)"
proof -
  let ?g = "setup_config cfg (module_globals\<lparr> CONFIG := Some cfg \<rparr>)"
  let ?cz = "cfg\<lparr> zero_detect := 0 \<rparr>"
  let ?gz = "setup_config ?cz (module_globals\<lparr> CONFIG := Some ?cz \<rparr>)"
  obtain t is_success where c: "check_file ?g env (checkpath cfg) [] (error_detect cfg) 0 0 = (t, is_success)"
    by (cases "check_file ?g env (checkpath cfg) [] (error_detect cfg) 0 0")
  have "ReadFile f \<notin> set t"
    using check_file_effects [of "ReadFile f" ?g env "checkpath cfg" "[]" "error_detect cfg" 0 0] c
    by auto
  then have "ReadFile f \<notin> set (fst (single_file ?g env cfg))"
    by (simp add: single_file_def Let_def c log_check_outcome_def)
  then have a: "ReadFile f \<notin> set (fst (main env cfg))"
    using assms by (simp add: main_def Let_def banner_def case_prod_beta)
  have "PIL_EXTENSIONS ?g = PIL_EXTENSIONS ?gz"
    by (simp add: setup_config_PIL)
  then have "check_file ?g env (checkpath cfg) [] (error_detect cfg) 0 0
      = check_file ?gz env (checkpath cfg) [] (error_detect cfg) 0 0"
    by (rule check_file_globals)
  then have "single_file ?g env cfg = single_file ?gz env ?cz"
    by (simp add: single_file_def)
  then have b: "main env cfg = main env ?cz"
    using assms by (simp add: main_def Let_def)
  show ?thesis using a b by simp
qed

text \<open>
  The hypothesis of C10 holds for the PNG of three equal bytes with the threshold
  configured as 2: the file is not read and the run exits with status 0.
\<close>

theorem single_file_skips_zero_run_witness:
  "isfile demo_env ''media/run.png''
   \<and> zero_detect (demo_config\<lparr> checkpath := ''media/run.png'' \<rparr>) = 2
   \<and> ReadFile ''media/run.png'' \<notin> set (fst (main demo_env (demo_config\<lparr> checkpath := ''media/run.png'' \<rparr>)))
   \<and> snd (main demo_env (demo_config\<lparr> checkpath := ''media/run.png'' \<rparr>)) = Exit 0"
proof -
  have h: "isfile demo_env (checkpath (demo_config\<lparr> checkpath := ''media/run.png'' \<rparr>))"
    by (simp add: demo_env_def)
  have z: "zero_detect (demo_config\<lparr> checkpath := ''media/run.png'' \<rparr>) = 2"
    by (simp add: demo_config_def)
  have e: "snd (main demo_env (demo_config\<lparr> checkpath := ''media/run.png'' \<rparr>)) = Exit 0"
    by code_simp
  have i: "isfile demo_env ''media/run.png''"
    by (simp add: demo_env_def)
  show ?thesis
    using i z e single_file_skips_zero_run [OF h, of "''media/run.png''"] by blast
qed

end
